theory Spec2Isabelle
  imports Main "HOL-Library.Word"
begin

unbundle bit_operations_syntax

section \<open>Header soundness commitment: a shallow embedding of app.py\<close>

text \<open>
  The program fetches one block header from a primary and, optionally, a secondary RPC
  provider, derives a commitment from the header's essential fields and compares the
  two bundles field by field. Python integers are \<open>int\<close>, \<open>bytes\<close> are lists of
  8-bit words, \<open>str\<close> is \<open>string\<close>, and every exception or \<open>sys.exit\<close> of the
  source is a value \<open>Inl e\<close> of the result type \<open>error + 'a\<close>. The functions of the
  Python library (\<open>str.lower\<close>, \<open>int\<close>, \<open>bytes.fromhex\<close>) are modelled on texts of
  seven-bit characters (\<open>ascii_text\<close>): on other texts Python first maps the white
  space and the decimal digits of Unicode to their seven-bit counterparts, which is not
  modelled, so a statement about every input of the parser is made for seven-bit texts.
  The lines the program prints are left out; the exceptions that printing can raise are
  kept.
\<close>

subsection \<open>Errors\<close>

datatype error =
    ValueError \<comment> \<open>raised by \<open>int(arg, 0)\<close>, \<open>str(n)\<close> and \<open>bytes.fromhex\<close>\<close>
  | OverflowError \<comment> \<open>raised by \<open>int.to_bytes\<close> and \<open>time.gmtime\<close>\<close>
  | BlockNotFound \<comment> \<open>raised by the provider's \<open>get_block\<close>\<close>
  | OSError \<comment> \<open>raised by \<open>time.gmtime\<close>\<close>
  | SystemExit int \<comment> \<open>\<open>sys.exit(code)\<close>\<close>

definition bind_err :: "error + 'a \<Rightarrow> ('a \<Rightarrow> error + 'b) \<Rightarrow> error + 'b" where
  "bind_err r f = (case r of Inl e \<Rightarrow> Inl e | Inr x \<Rightarrow> f x)"

subsection \<open>Characters and decimal rendering\<close>

definition ascii_uppercase :: string where
  "ascii_uppercase = ''ABCDEFGHIJKLMNOPQRSTUVWXYZ''"

definition ascii_lowercase :: string where
  "ascii_lowercase = ''abcdefghijklmnopqrstuvwxyz''"

text \<open>\<open>str.lower()\<close> on the seven-bit range: the letters A to Z move to a to z, every
  other character stays.\<close>

definition lower_char :: "char \<Rightarrow> char" where
  "lower_char c = (case map_of (zip ascii_uppercase ascii_lowercase) c of
                     Some d \<Rightarrow> d | None \<Rightarrow> c)"

definition lower :: "string \<Rightarrow> string" where
  "lower s = map lower_char s"

text \<open>\<open>Py_ISSPACE\<close>: tab, line feed, vertical tab, form feed, carriage return, space.\<close>

definition isspace :: "char \<Rightarrow> bool" where
  "isspace c = (c \<in> set [CHR 0x09, CHR 0x0A, CHR 0x0B, CHR 0x0C, CHR 0x0D, CHR 0x20])"

definition digit_chars :: string where
  "digit_chars = ''0123456789abcdefghijklmnopqrstuvwxyz''"

fun index_of :: "'a \<Rightarrow> 'a list \<Rightarrow> nat" where
  "index_of c [] = 0"
| "index_of c (x # xs) = (if c = x then 0 else Suc (index_of c xs))"

text \<open>The table \<open>_PyLong_DigitValue\<close>: 0 to 9 for the digits, 10 to 35 for the letters
  of either case, 37 for every other character.\<close>

definition digit_value :: "char \<Rightarrow> nat" where
  "digit_value c = (let i = index_of (lower_char c) digit_chars in if i < 36 then i else 37)"

definition digit_char :: "nat \<Rightarrow> char" where
  "digit_char d = digit_chars ! d"

text \<open>The interpreter's default limit on the number of decimal digits in a conversion
  between \<open>int\<close> and \<open>str\<close> (\<open>sys.int_max_str_digits\<close>).\<close>

definition int_max_str_digits :: nat where
  "int_max_str_digits = 4300"

text \<open>The decimal digits of a natural number.\<close>

fun digits10 :: "nat \<Rightarrow> string" where
  "digits10 n = (if n < 10 then [digit_char n] else digits10 (n div 10) @ [digit_char (n mod 10)])"

declare digits10.simps [simp del]

text \<open>\<open>str(n)\<close> of an integer, as the f-string of \<open>network_name\<close> renders it:
  \<open>ValueError\<close> for an integer of more digits than the limit.\<close>

definition str_int :: "int \<Rightarrow> error + string" where
  "str_int i =
     (if int_max_str_digits < length (digits10 (nat \<bar>i\<bar>)) then Inl ValueError
      else Inr (if i < 0 then CHR ''-'' # digits10 (nat (- i)) else digits10 (nat i)))"

subsection \<open>The network table\<close>

definition NETWORKS :: "(int \<times> string) list" where
  "NETWORKS =
     [(1, ''Ethereum Mainnet''),
      (11155111, ''Sepolia Testnet''),
      (10, ''Optimism''),
      (137, ''Polygon''),
      (42161, ''Arbitrum One'')]"

text \<open>\<open>NETWORKS.get(cid, f"Unknown (chain ID {cid})")\<close>: the default is an argument
  of the call, so the f-string is evaluated for every chain id, before the table is
  looked up.\<close>

definition network_name :: "int \<Rightarrow> error + string" where
  "network_name cid =
     bind_err (str_int cid) (\<lambda>n.
       Inr (case map_of NETWORKS cid of
              Some label \<Rightarrow> label
            | None \<Rightarrow> ''Unknown (chain ID '' @ n @ '')''))"

subsection \<open>Block references\<close>

text \<open>\<open>parse_block_arg\<close> returns either a \<open>str\<close> (the lower-cased tag) or an \<open>int\<close>.\<close>

datatype block_id = Tag string | Height int

text \<open>
  \<open>int(arg, 0)\<close>, following \<open>PyLong_FromString\<close> of CPython with base 0: leading
  white space is skipped, one sign is read, the base is taken from the prefix
  (\<open>0x\<close>, \<open>0o\<close>, \<open>0b\<close> in either case, else 10; a decimal literal that starts with
  \<open>0\<close> must be zero), one underscore may follow the prefix, then digits are read with
  single underscores between them, trailing white space is skipped and nothing may
  remain. A decimal literal of more than \<open>int_max_str_digits\<close> digits is refused (the
  interpreter's default limit). Every failure is \<open>ValueError\<close>. This is what
  \<open>int(arg, 0)\<close> does on a text of seven-bit characters; a text with other characters
  is first rewritten by the interpreter and is not covered.
\<close>

definition read_sign :: "string \<Rightarrow> int \<times> string" where
  "read_sign s =
     (case s of
        [] \<Rightarrow> (1, s)
      | c # r \<Rightarrow> if c = CHR ''+'' then (1, r) else if c = CHR ''-'' then (- 1, r) else (1, s))"

text \<open>The base and the flag \<open>error_if_nonzero\<close>.\<close>

definition detect_base :: "string \<Rightarrow> nat \<times> bool" where
  "detect_base s =
     (case s of
        [] \<Rightarrow> (10, False)
      | c # r \<Rightarrow>
          if c \<noteq> CHR ''0'' then (10, False)
          else (case r of
                  [] \<Rightarrow> (10, True)
                | d # _ \<Rightarrow>
                    if d = CHR ''x'' \<or> d = CHR ''X'' then (16, False)
                    else if d = CHR ''o'' \<or> d = CHR ''O'' then (8, False)
                    else if d = CHR ''b'' \<or> d = CHR ''B'' then (2, False)
                    else (10, True)))"

definition skip_prefix :: "nat \<Rightarrow> string \<Rightarrow> string" where
  "skip_prefix base s =
     (if base = 10 then s
      else (case drop 2 s of
              [] \<Rightarrow> []
            | c # r \<Rightarrow> if c = CHR ''_'' then r else c # r))"

definition is_digit_or_underscore :: "nat \<Rightarrow> char \<Rightarrow> bool" where
  "is_digit_or_underscore base c = (digit_value c < base \<or> c = CHR ''_'')"

fun underscores_ok :: "string \<Rightarrow> bool" where
  "underscores_ok [] = False"
| "underscores_ok [c] = (c \<noteq> CHR ''_'')"
| "underscores_ok (c # d # r) =
     (\<not> (c = CHR ''_'' \<and> d = CHR ''_'') \<and> underscores_ok (d # r))"

definition digits_value :: "nat \<Rightarrow> string \<Rightarrow> int" where
  "digits_value base ds = foldl (\<lambda>acc c. acc * int base + int (digit_value c)) 0 ds"

definition py_int0 :: "string \<Rightarrow> error + int" where
  "py_int0 s =
     (let s1 = dropWhile isspace s;
          (sign, s2) = read_sign s1;
          (base, error_if_nonzero) = detect_base s2;
          s3 = skip_prefix base s2;
          body = takeWhile (is_digit_or_underscore base) s3;
          rest = dropWhile (is_digit_or_underscore base) s3;
          ds = filter (\<lambda>c. c \<noteq> CHR ''_'') body;
          z = digits_value base ds
      in if body = [] \<or> hd body = CHR ''_'' \<or> \<not> underscores_ok body then Inl ValueError
         else if base = 10 \<and> int_max_str_digits < length ds then Inl ValueError
         else if error_if_nonzero \<and> z \<noteq> 0 then Inl ValueError
         else if dropWhile isspace rest \<noteq> [] then Inl ValueError
         else Inr (sign * z))"

definition block_tags :: "string list" where
  "block_tags = [''latest'', ''finalized'', ''safe'', ''pending'']"

definition parse_block_arg :: "string \<Rightarrow> error + block_id" where
  "parse_block_arg arg =
     (if lower arg \<in> set block_tags then Inr (Tag (lower arg))
      else bind_err (py_int0 arg) (\<lambda>n. Inr (Height n)))"

subsection \<open>Bytes and hexadecimal text\<close>

type_synonym byte = "8 word"

text \<open>\<open>n.to_bytes(len, "big")\<close>: \<open>OverflowError\<close> for a negative integer and for one that
  does not fit, else the big-endian bytes, zero-padded on the left.\<close>

fun be_bytes :: "nat \<Rightarrow> int \<Rightarrow> byte list" where
  "be_bytes 0 n = []"
| "be_bytes (Suc k) n = be_bytes k (n div 256) @ [word_of_int n]"

definition to_bytes :: "int \<Rightarrow> nat \<Rightarrow> error + byte list" where
  "to_bytes n len = (if n < 0 \<or> 256 ^ len \<le> n then Inl OverflowError else Inr (be_bytes len n))"

text \<open>\<open>bytes.hex()\<close>: two lower-case hexadecimal digits for each byte.\<close>

definition hexstr :: "byte list \<Rightarrow> string" where
  "hexstr bs = concat (map (\<lambda>b. [digit_char (unat b div 16), digit_char (unat b mod 16)]) bs)"

text \<open>
  \<open>header.hash\<close> and the result of \<open>Web3.keccak\<close> are \<open>HexBytes\<close> values of the
  hexbytes library, which is not part of this repository. Its method \<open>hex()\<close> renders
  the bytes with the prefix \<open>0x\<close> in the releases before 1.0 and without it from 1.0
  on, so the embedding carries the library's behaviour as a parameter.
\<close>

datatype hexbytes_api = Prefixed | Bare

definition HexBytes_hex :: "hexbytes_api \<Rightarrow> byte list \<Rightarrow> string" where
  "HexBytes_hex v bs = (case v of Prefixed \<Rightarrow> ''0x'' @ hexstr bs | Bare \<Rightarrow> hexstr bs)"

text \<open>\<open>bytes.fromhex\<close>: white space between the pairs is skipped, each pair of
  hexadecimal digits is one byte, anything else is \<open>ValueError\<close>.\<close>

fun fromhex :: "string \<Rightarrow> error + byte list" where
  "fromhex [] = Inr []"
| "fromhex [c] = (if isspace c then Inr [] else Inl ValueError)"
| "fromhex (c # d # r) =
     (if isspace c then fromhex (d # r)
      else if digit_value c < 16 \<and> digit_value d < 16
      then bind_err (fromhex r) (\<lambda>bs. Inr (word_of_nat (16 * digit_value c + digit_value d) # bs))
      else Inl ValueError)"

subsection \<open>Keccak-256\<close>

text \<open>
  \<open>Web3.keccak\<close> is the Keccak-256 of Ethereum: the sponge over the permutation
  Keccak-f[1600] with rate 136 bytes, padding \<open>0x01 \<dots> 0x80\<close> and 32 bytes of output.
  The state is the list of its 25 lanes, lane \<open>(x, y)\<close> at index \<open>x + 5 * y\<close>.
\<close>

type_synonym lane = "64 word"

definition RC :: "lane list" where
  "RC = [0x0000000000000001, 0x0000000000008082, 0x800000000000808A, 0x8000000080008000,
         0x000000000000808B, 0x0000000080000001, 0x8000000080008081, 0x8000000000008009,
         0x000000000000008A, 0x0000000000000088, 0x0000000080008009, 0x000000008000000A,
         0x000000008000808B, 0x800000000000008B, 0x8000000000008089, 0x8000000000008003,
         0x8000000000008002, 0x8000000000000080, 0x000000000000800A, 0x800000008000000A,
         0x8000000080008081, 0x8000000000008080, 0x0000000080000001, 0x8000000080008008]"

definition rotation_offsets :: "nat list" where
  "rotation_offsets = [0, 1, 62, 28, 27,  36, 44, 6, 55, 20,  3, 10, 43, 25, 39,
                       41, 45, 15, 21, 8,  18, 2, 61, 56, 14]"

definition theta :: "lane list \<Rightarrow> lane list" where
  "theta A =
     (let C = map (\<lambda>x. A ! x XOR A ! (x + 5) XOR A ! (x + 10) XOR A ! (x + 15) XOR A ! (x + 20))
                  [0..<5];
          D = map (\<lambda>x. C ! ((x + 4) mod 5) XOR word_rotl 1 (C ! ((x + 1) mod 5))) [0..<5]
      in map (\<lambda>i. A ! i XOR D ! (i mod 5)) [0..<25])"

definition rho_pi :: "lane list \<Rightarrow> lane list" where
  "rho_pi A =
     map (\<lambda>i. let x' = i mod 5; y' = i div 5; x = (x' + 3 * y') mod 5; y = x'
               in word_rotl (rotation_offsets ! (x + 5 * y)) (A ! (x + 5 * y))) [0..<25]"

definition chi :: "lane list \<Rightarrow> lane list" where
  "chi B =
     map (\<lambda>i. let x = i mod 5; y = i div 5
               in B ! i XOR (NOT (B ! ((x + 1) mod 5 + 5 * y)) AND B ! ((x + 2) mod 5 + 5 * y)))
         [0..<25]"

definition iota :: "lane \<Rightarrow> lane list \<Rightarrow> lane list" where
  "iota rc A = (A ! 0 XOR rc) # tl A"

definition keccak_round :: "lane list \<Rightarrow> lane \<Rightarrow> lane list" where
  "keccak_round A rc = iota rc (chi (rho_pi (theta A)))"

definition keccak_f :: "lane list \<Rightarrow> lane list" where
  "keccak_f A = foldl keccak_round A RC"

definition lane_of_bytes :: "byte list \<Rightarrow> lane" where
  "lane_of_bytes bs = foldr (\<lambda>b acc. ucast b OR push_bit 8 acc) bs 0"

definition bytes_of_lane :: "lane \<Rightarrow> byte list" where
  "bytes_of_lane w = map (\<lambda>i. ucast (drop_bit (8 * i) w)) [0..<8]"

fun chunks :: "nat \<Rightarrow> 'a list \<Rightarrow> 'a list list" where
  "chunks n [] = []"
| "chunks n (x # xs) = (if n = 0 then [] else take n (x # xs) # chunks n (drop n (x # xs)))"

definition rate :: nat where
  "rate = 136"

definition pad :: "byte list \<Rightarrow> byte list" where
  "pad m = (let q = rate - length m mod rate
            in if q = 1 then m @ [0x81] else m @ [0x01] @ replicate (q - 2) 0 @ [0x80])"

definition absorb :: "lane list \<Rightarrow> byte list \<Rightarrow> lane list" where
  "absorb A block =
     keccak_f (map2 (XOR) A (map lane_of_bytes (chunks 8 block) @ replicate 8 0))"

definition keccak256 :: "byte list \<Rightarrow> byte list" where
  "keccak256 m =
     take 32 (concat (map bytes_of_lane (foldl absorb (replicate 25 0) (chunks rate (pad m)))))"

subsection \<open>The header and its commitment\<close>

text \<open>The block that \<open>get_block\<close> returns; the fields the program does not read are the
  extension of the record.\<close>

record header =
  hdr_number :: int
  hdr_timestamp :: int
  hdr_hash :: "byte list"
  hdr_parentHash :: "byte list"
  hdr_stateRoot :: "byte list"
  hdr_receiptsRoot :: "byte list"
  hdr_transactionsRoot :: "byte list"

text \<open>The local variable \<open>fields\<close> of \<open>header_commitment\<close>: the summands are evaluated
  from left to right and the first exception ends the evaluation.\<close>

definition header_fields :: "hexbytes_api \<Rightarrow> int \<Rightarrow> 'a header_scheme \<Rightarrow> error + byte list" where
  "header_fields v chain_id header =
     (let num = hdr_number header;
          ts = hdr_timestamp header
      in bind_err (to_bytes chain_id 8) (\<lambda>f1.
         bind_err (to_bytes num 8) (\<lambda>f2.
         bind_err (fromhex (drop 2 (HexBytes_hex v (hdr_hash header)))) (\<lambda>f3.
         bind_err (fromhex (drop 2 (HexBytes_hex v (hdr_parentHash header)))) (\<lambda>f4.
         bind_err (fromhex (drop 2 (HexBytes_hex v (hdr_stateRoot header)))) (\<lambda>f5.
         bind_err (fromhex (drop 2 (HexBytes_hex v (hdr_receiptsRoot header)))) (\<lambda>f6.
         bind_err (fromhex (drop 2 (HexBytes_hex v (hdr_transactionsRoot header)))) (\<lambda>f7.
         bind_err (to_bytes ts 8) (\<lambda>f8.
         Inr (f1 @ f2 @ f3 @ f4 @ f5 @ f6 @ f7 @ f8))))))))))"

definition header_commitment :: "hexbytes_api \<Rightarrow> int \<Rightarrow> 'a header_scheme \<Rightarrow> error + string" where
  "header_commitment v chain_id header =
     bind_err (header_fields v chain_id header)
       (\<lambda>fields. Inr (''0x'' @ HexBytes_hex v (keccak256 fields)))"

subsection \<open>Providers and bundles\<close>

text \<open>A connected \<open>Web3\<close> handle, as far as the program uses it.\<close>

record 'a provider =
  is_connected :: bool
  eth_chain_id :: int
  eth_get_block :: "block_id \<Rightarrow> error + 'a header_scheme"

record header_bundle =
  chain_id :: int
  network :: string
  number :: int
  timestamp :: int
  hash :: string
  parentHash :: string
  stateRoot :: string
  receiptsRoot :: string
  transactionsRoot :: string
  commitment :: string

definition w3_connect :: "(string \<Rightarrow> 'a provider) \<Rightarrow> string \<Rightarrow> error + 'a provider" where
  "w3_connect net url =
     (let w3 = net url in if \<not> is_connected w3 then Inl (SystemExit 1) else Inr w3)"

definition fetch_header_bundle ::
  "hexbytes_api \<Rightarrow> 'a provider \<Rightarrow> block_id \<Rightarrow> error + header_bundle" where
  "fetch_header_bundle v w3 block_id =
     bind_err (eth_get_block w3 block_id) (\<lambda>header.
     bind_err (network_name (eth_chain_id w3)) (\<lambda>label.
     bind_err (header_commitment v (eth_chain_id w3) header) (\<lambda>c.
     Inr \<lparr>chain_id = eth_chain_id w3,
          network = label,
          number = hdr_number header,
          timestamp = hdr_timestamp header,
          hash = HexBytes_hex v (hdr_hash header),
          parentHash = HexBytes_hex v (hdr_parentHash header),
          stateRoot = HexBytes_hex v (hdr_stateRoot header),
          receiptsRoot = HexBytes_hex v (hdr_receiptsRoot header),
          transactionsRoot = HexBytes_hex v (hdr_transactionsRoot header),
          commitment = c\<rparr>)))"

subsection \<open>The cross-check\<close>

text \<open>\<open>compare\<close> prints one line for each of its eight booleans and then one of two
  verdict lines; \<open>sound\<close> is the condition of that last \<open>if\<close>.\<close>

record comparison =
  same_chain :: bool
  same_num :: bool
  same_hash :: bool
  same_parent :: bool
  same_state :: bool
  same_receipts :: bool
  same_txroot :: bool
  same_commit :: bool
  sound :: bool

definition compare :: "header_bundle \<Rightarrow> header_bundle \<Rightarrow> comparison" where
  "compare a b =
     (let same_chain = (chain_id a = chain_id b);
          same_num = (number a = number b);
          same_hash = (hash a = hash b);
          same_parent = (parentHash a = parentHash b);
          same_state = (stateRoot a = stateRoot b);
          same_receipts = (receiptsRoot a = receiptsRoot b);
          same_txroot = (transactionsRoot a = transactionsRoot b);
          same_commit = (commitment a = commitment b)
      in \<lparr>same_chain = same_chain, same_num = same_num, same_hash = same_hash,
          same_parent = same_parent, same_state = same_state, same_receipts = same_receipts,
          same_txroot = same_txroot, same_commit = same_commit,
          sound = list_all (\<lambda>x. x) [same_chain, same_num, same_hash, same_parent, same_state,
                                     same_receipts, same_txroot, same_commit]\<rparr>)"

subsection \<open>The program\<close>

record args =
  rpc1 :: string
  rpc2 :: "string option"
  block :: string

text \<open>What a run that reaches its end has done: the primary bundle and, when a second
  provider is configured, the block reference \<open>b_id\<close> sent to it, its bundle and the
  comparison.\<close>

record run =
  run_primary :: header_bundle
  run_cross_check :: "(block_id \<times> header_bundle \<times> comparison) option"

definition is_int :: "block_id \<Rightarrow> bool" where
  "is_int block_id = (case block_id of Height _ \<Rightarrow> True | Tag _ \<Rightarrow> False)"

definition secondary_block_id :: "header_bundle \<Rightarrow> block_id \<Rightarrow> block_id" where
  "secondary_block_id primary block_id =
     (if is_int block_id then Height (number primary) else block_id)"

text \<open>
  \<open>print_bundle\<close> formats the timestamp with \<open>time.strftime\<close> of
  \<open>time.gmtime\<close>, which raises for a timestamp outside the range of the platform.
  That range is not fixed by the program, so the formatting is a parameter \<open>gmtime\<close>
  of the embedding. The other values that \<open>print_bundle\<close> formats are those of a
  bundle already built: the strings as they are, and the chain id and the number, which
  \<open>int.to_bytes\<close> has accepted in \<open>header_commitment\<close> and which therefore have
  at most 20 digits. Writing to the output stream is taken to succeed.
\<close>

definition print_bundle :: "(int \<Rightarrow> error + unit) \<Rightarrow> string \<Rightarrow> header_bundle \<Rightarrow> error + unit" where
  "print_bundle gmtime label b = gmtime (timestamp b)"

definition main ::
  "hexbytes_api \<Rightarrow> (int \<Rightarrow> error + unit) \<Rightarrow> (string \<Rightarrow> 'a provider) \<Rightarrow> args \<Rightarrow> error + run" where
  "main v gmtime net args =
     (if rpc1 args = [] then Inl (SystemExit 1)
      else case parse_block_arg (block args) of
        Inl _ \<Rightarrow> Inl (SystemExit 1)
      | Inr block_id \<Rightarrow>
          bind_err (w3_connect net (rpc1 args)) (\<lambda>w3a.
          bind_err (fetch_header_bundle v w3a block_id) (\<lambda>primary.
          bind_err (print_bundle gmtime ''PRIMARY'' primary) (\<lambda>_.
            if rpc2 args \<noteq> None \<and> rpc2 args \<noteq> Some []
            then bind_err (w3_connect net (the (rpc2 args))) (\<lambda>w3b.
                 let b_id = secondary_block_id primary block_id
                 in bind_err (fetch_header_bundle v w3b b_id) (\<lambda>secondary.
                    bind_err (print_bundle gmtime ''SECONDARY'' secondary) (\<lambda>_.
                    Inr \<lparr>run_primary = primary,
                         run_cross_check = Some (b_id, secondary, compare primary secondary)\<rparr>)))
            else Inr \<lparr>run_primary = primary, run_cross_check = None\<rparr>))))"

section \<open>Notions of the specification\<close>

text \<open>The range of an unsigned integer of 8 bytes.\<close>

definition in_u64 :: "int \<Rightarrow> bool" where
  "in_u64 n = (0 \<le> n \<and> n < 2 ^ 64)"

text \<open>The 8-byte big-endian encoding as the specification words it: byte \<open>i\<close> of the
  eight holds the digit of weight \<open>256 ^ (7 - i)\<close>, so the leading bytes of a small
  number are zero.\<close>

definition big_endian8 :: "int \<Rightarrow> byte list" where
  "big_endian8 n = map (\<lambda>i. word_of_int (n div 256 ^ (7 - i))) [0..<8]"

text \<open>The unsigned value of a big-endian byte string.\<close>

definition be_value :: "byte list \<Rightarrow> int" where
  "be_value bs = foldl (\<lambda>a b. a * 256 + uint b) 0 bs"

text \<open>The preimage of the specification: the eight fields in their order, nothing
  between them.\<close>

definition concat_fields :: "int \<Rightarrow> 'a header_scheme \<Rightarrow> byte list" where
  "concat_fields cid h =
     big_endian8 cid @ big_endian8 (hdr_number h) @ hdr_hash h @ hdr_parentHash h @
     hdr_stateRoot h @ hdr_receiptsRoot h @ hdr_transactionsRoot h @
     big_endian8 (hdr_timestamp h)"

definition roots_32 :: "'a header_scheme \<Rightarrow> bool" where
  "roots_32 h =
     (length (hdr_hash h) = 32 \<and> length (hdr_parentHash h) = 32 \<and>
      length (hdr_stateRoot h) = 32 \<and> length (hdr_receiptsRoot h) = 32 \<and>
      length (hdr_transactionsRoot h) = 32)"

section \<open>Concrete inputs\<close>

definition example_header :: header where
  "example_header =
     \<lparr>hdr_number = 18000000, hdr_timestamp = 1693066895,
      hdr_hash = replicate 32 0x11, hdr_parentHash = replicate 32 0x22,
      hdr_stateRoot = replicate 32 0x33, hdr_receiptsRoot = replicate 32 0x44,
      hdr_transactionsRoot = replicate 32 0x55\<rparr>"


text \<open>The same header with another state root of 32 bytes.\<close>

definition other_root_header :: header where
  "other_root_header = example_header\<lparr>hdr_stateRoot := replicate 32 0x34\<rparr>"

text \<open>The same header with a state root that differs in its first byte alone.\<close>

definition first_byte_header :: header where
  "first_byte_header = example_header\<lparr>hdr_stateRoot := 0x34 # replicate 31 0x33\<rparr>"

text \<open>The example header's five hash fields without their first bytes, between the
  three integers: 8 + 8 + 5 * 31 + 8 bytes.\<close>

definition example_bare_preimage :: "byte list" where
  "example_bare_preimage =
     big_endian8 1 @ big_endian8 18000000 @ replicate 31 0x11 @ replicate 31 0x22 @
     replicate 31 0x33 @ replicate 31 0x44 @ replicate 31 0x55 @ big_endian8 1693066895"



text \<open>The prefixes of \<open>int(arg, 0)\<close> with their bases.\<close>

definition base_prefixes :: "(string \<times> nat) list" where
  "base_prefixes = [(''0x'', 16), (''0X'', 16), (''0o'', 8), (''0O'', 8), (''0b'', 2), (''0B'', 2)]"

text \<open>Two providers of chain 1 whose heads stand at different heights: a tag resolves
  to the head, a height to the block at that height.\<close>

definition block_at :: "int \<Rightarrow> header" where
  "block_at n = example_header\<lparr>hdr_number := n\<rparr>"

definition provider_at :: "int \<Rightarrow> unit provider" where
  "provider_at head =
     \<lparr>is_connected = True, eth_chain_id = 1,
      eth_get_block = (\<lambda>r. case r of
          Tag t \<Rightarrow> Inr (block_at head)
        | Height n \<Rightarrow> if 0 \<le> n \<and> n \<le> head then Inr (block_at n) else Inl BlockNotFound)\<rparr>"

definition example_net :: "string \<Rightarrow> unit provider" where
  "example_net url = (if url = ''rpc-a'' then provider_at 100 else provider_at 101)"

definition latest_args :: args where
  "latest_args = \<lparr>rpc1 = ''rpc-a'', rpc2 = Some ''rpc-b'', block = ''latest''\<rparr>"

definition height_args :: args where
  "height_args = \<lparr>rpc1 = ''rpc-a'', rpc2 = Some ''rpc-b'', block = ''42''\<rparr>"

text \<open>An instance of the parameter \<open>gmtime\<close>: a clock that formats the timestamps
  from 0 to 67767976233532799, the last second of the year 2147483647, and refuses the
  others. The runs below reach it with the timestamp 1693066895.\<close>

definition example_clock :: "int \<Rightarrow> error + unit" where
  "example_clock ts = (if 0 \<le> ts \<and> ts \<le> 67767976233532799 then Inr () else Inl OSError)"

text \<open>What a run shows: the number of the primary bundle, the reference sent to the
  secondary provider and the number of the secondary bundle.\<close>

definition primary_number :: "error + run \<Rightarrow> int option" where
  "primary_number r = (case r of Inl e \<Rightarrow> None | Inr x \<Rightarrow> Some (number (run_primary x)))"

definition secondary_reference :: "error + run \<Rightarrow> block_id option" where
  "secondary_reference r =
     (case r of Inl e \<Rightarrow> None | Inr x \<Rightarrow> map_option fst (run_cross_check x))"

definition secondary_number :: "error + run \<Rightarrow> int option" where
  "secondary_number r =
     (case r of Inl e \<Rightarrow> None
      | Inr x \<Rightarrow> map_option (\<lambda>(b_id, secondary, c). number secondary) (run_cross_check x))"

text \<open>
  What it is for a text to denote an integer, in the words of the Python reference for
  \<open>int(x, 0)\<close>: optional white space, an optional sign, an optional base prefix with
  an optional underscore behind it, groups of digits of the base joined by single
  underscores, optional white space. A decimal literal has no prefix, at most
  \<open>int_max_str_digits\<close> digits, and starts with the digit zero only if all its
  digits are zero.
\<close>

fun join_underscore :: "string list \<Rightarrow> string" where
  "join_underscore [] = []"
| "join_underscore [g] = g"
| "join_underscore (g # h # gs) = g @ CHR ''_'' # join_underscore (h # gs)"




text \<open>Two providers of chain 1 that serve, for every reference, headers that differ in
  the first byte of the state root alone; and what a run reports of its comparison.\<close>

definition serving :: "header \<Rightarrow> unit provider" where
  "serving h = \<lparr>is_connected = True, eth_chain_id = 1, eth_get_block = (\<lambda>r. Inr h)\<rparr>"

definition first_byte_net :: "string \<Rightarrow> unit provider" where
  "first_byte_net url = (if url = ''rpc-a'' then serving example_header else serving first_byte_header)"

definition fixed_args :: args where
  "fixed_args = \<lparr>rpc1 = ''rpc-a'', rpc2 = Some ''rpc-b'', block = ''18000000''\<rparr>"

definition reported :: "(comparison \<Rightarrow> bool) \<Rightarrow> error + run \<Rightarrow> bool option" where
  "reported field r =
     (case r of Inl e \<Rightarrow> None
      | Inr x \<Rightarrow> map_option (\<lambda>(b_id, secondary, c). field c) (run_cross_check x))"

section \<open>Basic facts about the model\<close>

lemma bind_err_Inl [simp]: "bind_err (Inl e) f = Inl e"
  by (simp add: bind_err_def)

lemma bind_err_Inr [simp]: "bind_err (Inr x) f = f x"
  by (simp add: bind_err_def)

subsection \<open>Big-endian bytes\<close>

lemma length_be_bytes [simp]: "length (be_bytes k n) = k"
  by (induction k arbitrary: n) simp_all

lemma be_value_snoc: "be_value (bs @ [b]) = be_value bs * 256 + uint b"
  by (simp add: be_value_def)

lemma be_value_be_bytes: "be_value (be_bytes k n) = n mod 256 ^ k"
proof (induction k arbitrary: n)
  case 0
  show ?case by (simp add: be_value_def)
next
  case (Suc k)
  have "uint (word_of_int n :: byte) = n mod 256"
    by (simp add: uint_word_of_int)
  then have "be_value (be_bytes (Suc k) n) = (n div 256) mod 256 ^ k * 256 + n mod 256"
    by (simp add: be_value_snoc Suc.IH)
  also have "\<dots> = n mod 256 ^ Suc k"
    using zmod_zmult2_eq [of "256 ^ k" n 256] by (simp add: mult.commute)
  finally show ?case .
qed

lemma be_bytes_inject:
  assumes "0 \<le> n" "n < 256 ^ k" "0 \<le> m" "m < 256 ^ k" "be_bytes k n = be_bytes k m"
  shows "n = m"
proof -
  have "n mod 256 ^ k = m mod 256 ^ k"
    using assms(5) be_value_be_bytes [of k n] be_value_be_bytes [of k m] by simp
  with assms show ?thesis by simp
qed

lemma be_bytes_8: "be_bytes 8 n = big_endian8 n"
  by (simp add: big_endian8_def eval_nat_numeral upt_rec zdiv_zmult2_eq [symmetric])

lemma length_big_endian8 [simp]: "length (big_endian8 n) = 8"
  by (simp add: big_endian8_def)

lemma be_value_big_endian8: "in_u64 n \<Longrightarrow> be_value (big_endian8 n) = n"
  using be_value_be_bytes [of 8 n] by (simp add: be_bytes_8 in_u64_def)

lemma big_endian8_inject:
  assumes "in_u64 n" "in_u64 m" "big_endian8 n = big_endian8 m"
  shows "n = m"
  using assms be_bytes_inject [of n 8 m] by (simp add: in_u64_def be_bytes_8)

lemma to_bytes_8:
  "to_bytes n 8 = (if n < 0 \<or> 2 ^ 64 \<le> n then Inl OverflowError else Inr (be_bytes 8 n))"
  by (simp add: to_bytes_def)

subsection \<open>Hexadecimal text\<close>

lemma hex_digits_ok:
  "\<forall>d \<in> set [0..<16]. digit_value (digit_char d) = d \<and> \<not> isspace (digit_char d)"
  by code_simp

lemma digit_value_digit_char: "d < 16 \<Longrightarrow> digit_value (digit_char d) = d"
  using hex_digits_ok by simp

lemma not_isspace_digit_char: "d < 16 \<Longrightarrow> \<not> isspace (digit_char d)"
  using hex_digits_ok by simp

lemma fromhex_hexstr: "fromhex (hexstr bs) = Inr bs"
proof (induction bs)
  case Nil
  show ?case by (simp add: hexstr_def)
next
  case (Cons b bs)
  have lt: "unat b div 16 < 16"
    using unsigned_less [of b, where ?'a = nat] by simp
  have "hexstr (b # bs) = digit_char (unat b div 16) # digit_char (unat b mod 16) # hexstr bs"
    by (simp add: hexstr_def)
  then show ?case
    using Cons.IH lt
    by (simp add: digit_value_digit_char not_isspace_digit_char del: mult_div_mod_eq)
qed

lemma hexstr_inject:
  assumes "hexstr a = hexstr b"
  shows "a = b"
proof -
  have "Inr a = fromhex (hexstr a)"
    by (simp only: fromhex_hexstr)
  also have "\<dots> = fromhex (hexstr b)"
    by (simp only: assms)
  also have "\<dots> = Inr b"
    by (simp only: fromhex_hexstr)
  finally show ?thesis
    by simp
qed

lemma HexBytes_hex_Prefixed_inject [simp]:
  "HexBytes_hex Prefixed a = HexBytes_hex Prefixed b \<longleftrightarrow> a = b"
  by (auto simp add: HexBytes_hex_def dest: hexstr_inject)

lemma drop_2_Prefixed [simp]: "drop 2 (HexBytes_hex Prefixed bs) = hexstr bs"
  by (simp add: HexBytes_hex_def)

text \<open>With the rendering of hexbytes 1.0 and later there is no prefix to cut, and the
  slice \<open>[2:]\<close> removes the first byte of the field.\<close>

lemma fromhex_drop_2_Bare: "fromhex (drop 2 (HexBytes_hex Bare bs)) = Inr (tl bs)"
proof (cases bs)
  case Nil
  then show ?thesis by (simp add: HexBytes_hex_def hexstr_def)
next
  case (Cons b r)
  then have "drop 2 (HexBytes_hex Bare bs) = hexstr r"
    by (simp add: HexBytes_hex_def hexstr_def)
  with Cons show ?thesis by (simp add: fromhex_hexstr)
qed

subsection \<open>The digest has 32 bytes\<close>

lemma length_keccak_round [simp]: "length (keccak_round A rc) = 25"
  by (simp add: keccak_round_def iota_def chi_def)

lemma length_keccak_f [simp]: "length (keccak_f A) = 25"
proof -
  have "RC = butlast RC @ [last RC]"
    by (simp add: RC_def)
  then have "keccak_f A = keccak_round (foldl keccak_round A (butlast RC)) (last RC)"
    unfolding keccak_f_def by (metis foldl_Cons foldl_Nil foldl_append)
  then show ?thesis by simp
qed

lemma length_absorb_foldl: "length A = 25 \<Longrightarrow> length (foldl absorb A blocks) = 25"
  by (induction blocks arbitrary: A) (simp_all add: absorb_def)

lemma length_concat_lanes: "length (concat (map bytes_of_lane S)) = 8 * length S"
  by (induction S) (simp_all add: bytes_of_lane_def)

lemma length_keccak256 [simp]: "length (keccak256 m) = 32"
  by (simp add: keccak256_def length_concat_lanes length_absorb_foldl)

subsection \<open>The preimage\<close>

lemma header_fields_Prefixed:
  "header_fields Prefixed cid h =
     (if in_u64 cid \<and> in_u64 (hdr_number h) \<and> in_u64 (hdr_timestamp h)
      then Inr (concat_fields cid h) else Inl OverflowError)"
  by (auto simp add: header_fields_def Let_def to_bytes_8 fromhex_hexstr be_bytes_8
      concat_fields_def in_u64_def)

lemma header_fields_Bare:
  "header_fields Bare cid h =
     (if in_u64 cid \<and> in_u64 (hdr_number h) \<and> in_u64 (hdr_timestamp h)
      then Inr (big_endian8 cid @ big_endian8 (hdr_number h) @ tl (hdr_hash h) @
                tl (hdr_parentHash h) @ tl (hdr_stateRoot h) @ tl (hdr_receiptsRoot h) @
                tl (hdr_transactionsRoot h) @ big_endian8 (hdr_timestamp h))
      else Inl OverflowError)"
  by (auto simp add: header_fields_def Let_def to_bytes_8 fromhex_drop_2_Bare be_bytes_8
      in_u64_def)

lemma length_concat_fields:
  "length (concat_fields cid h) =
     24 + length (hdr_hash h) + length (hdr_parentHash h) + length (hdr_stateRoot h) +
     length (hdr_receiptsRoot h) + length (hdr_transactionsRoot h)"
  by (simp add: concat_fields_def)

lemma header_commitment_Prefixed:
  "header_commitment Prefixed cid h =
     (if in_u64 cid \<and> in_u64 (hdr_number h) \<and> in_u64 (hdr_timestamp h)
      then Inr (''0x'' @ HexBytes_hex Prefixed (keccak256 (concat_fields cid h)))
      else Inl OverflowError)"
  by (simp add: header_commitment_def header_fields_Prefixed)

lemma header_fields_truncate:
  assumes "header.truncate h1 = header.truncate h2"
  shows "header_fields v cid h1 = header_fields v cid h2"
proof -
  from assms have "hdr_number h1 = hdr_number h2" "hdr_timestamp h1 = hdr_timestamp h2"
    "hdr_hash h1 = hdr_hash h2" "hdr_parentHash h1 = hdr_parentHash h2"
    "hdr_stateRoot h1 = hdr_stateRoot h2" "hdr_receiptsRoot h1 = hdr_receiptsRoot h2"
    "hdr_transactionsRoot h1 = hdr_transactionsRoot h2"
    by (simp_all add: header.truncate_def)
  then show ?thesis
    by (simp add: header_fields_def)
qed

lemma header_commitment_shape:
  assumes "header_commitment v cid h = Inr c"
  shows "\<exists>d. length d = 32 \<and> c = ''0x'' @ HexBytes_hex v d"
proof (cases "header_fields v cid h")
  case (Inl e)
  with assms show ?thesis by (simp add: header_commitment_def)
next
  case (Inr fields)
  with assms have "c = ''0x'' @ HexBytes_hex v (keccak256 fields)"
    by (simp add: header_commitment_def)
  then show ?thesis
    using length_keccak256 by blast
qed

lemma example_header_in_range:
  "in_u64 (hdr_number example_header)" "in_u64 (hdr_timestamp example_header)"
  "roots_32 example_header"
  by (simp_all add: example_header_def in_u64_def roots_32_def)

subsection \<open>Decimal text\<close>

lemma digits_value_snoc:
  "digits_value b (ds @ [c]) = digits_value b ds * int b + int (digit_value c)"
  by (simp add: digits_value_def)

lemma decimal_digits_ok:
  "\<forall>d \<in> set [0..<10]. digit_char d \<in> set ''0123456789''"
  by code_simp

lemma digit_char_decimal: "d < 10 \<Longrightarrow> digit_char d \<in> set ''0123456789''"
  using decimal_digits_ok by simp

lemma set_digits10: "set (digits10 n) \<subseteq> set ''0123456789''"
proof (induction n rule: digits10.induct)
  case (1 n)
  show ?case
  proof (cases "n < 10")
    case True
    then show ?thesis
      using digit_char_decimal [of n] by (subst digits10.simps) simp
  next
    case False
    then show ?thesis
      using 1 digit_char_decimal [of "n mod 10"] by (subst digits10.simps) simp
  qed
qed

lemma digits_value_digits10: "digits_value 10 (digits10 n) = int n"
proof (induction n rule: digits10.induct)
  case (1 n)
  show ?case
  proof (cases "n < 10")
    case True
    then show ?thesis
      by (subst digits10.simps) (simp add: digits_value_def digit_value_digit_char)
  next
    case False
    then have "digits_value 10 (digits10 n) = int (n div 10) * 10 + int (n mod 10)"
      using 1 by (subst digits10.simps) (simp add: digits_value_snoc digit_value_digit_char)
    also have "\<dots> = int n"
      by presburger
    finally show ?thesis .
  qed
qed

subsection \<open>The parser of integers\<close>


lemma py_int0_error: "py_int0 s = Inl e \<Longrightarrow> e = ValueError"
  by (auto simp add: py_int0_def Let_def split: prod.splits if_splits)

lemma parse_block_arg_error: "parse_block_arg arg = Inl e \<Longrightarrow> e = ValueError"
  by (cases "py_int0 arg") (auto simp add: parse_block_arg_def dest: py_int0_error split: if_splits)

lemma tag_first_char:
  assumes "lower s \<in> set block_tags"
  shows "s \<noteq> [] \<and> lower_char (hd s) \<in> set ''lfsp''"
proof (cases s)
  case Nil
  with assms show ?thesis by (simp add: block_tags_def lower_def)
next
  case (Cons c r)
  with assms show ?thesis by (auto simp add: block_tags_def lower_def)
qed

lemma numeric_first_chars:
  "\<forall>c \<in> set ''0123456789-+''. lower_char c \<notin> set ''lfsp'' \<and> \<not> isspace c \<and> c \<noteq> CHR ''_''"
  by code_simp


lemma digit_value_underscore: "digit_value (CHR ''_'') = 37"
  by code_simp

lemma digit_not_underscore: "digit_value c < base \<Longrightarrow> base \<le> 36 \<Longrightarrow> c \<noteq> CHR ''_''"
  using digit_value_underscore by auto

lemma underscores_ok_plain: "ds \<noteq> [] \<Longrightarrow> CHR ''_'' \<notin> set ds \<Longrightarrow> underscores_ok ds"
  by (induction ds rule: underscores_ok.induct) auto

text \<open>The scan of a body of digits that holds no underscore and ends the text.\<close>

lemma scan_plain_digits:
  assumes "ds \<noteq> []" "\<forall>c \<in> set ds. digit_value c < base" "base \<le> 36"
  shows "takeWhile (is_digit_or_underscore base) ds = ds"
    and "dropWhile (is_digit_or_underscore base) ds = []"
    and "filter (\<lambda>c. c \<noteq> CHR ''_'') ds = ds"
    and "underscores_ok ds" and "hd ds \<noteq> CHR ''_''"
proof -
  have no: "CHR ''_'' \<notin> set ds"
    using assms(2,3) digit_not_underscore by blast
  show "takeWhile (is_digit_or_underscore base) ds = ds"
    using assms(2) by (simp add: is_digit_or_underscore_def)
  show "dropWhile (is_digit_or_underscore base) ds = []"
    using assms(2) by (simp add: is_digit_or_underscore_def)
  show "filter (\<lambda>c. c \<noteq> CHR ''_'') ds = ds"
    using no by (simp add: filter_id_conv) metis
  show "underscores_ok ds"
    using assms(1) no by (rule underscores_ok_plain)
  show "hd ds \<noteq> CHR ''_''"
    using assms(1) no by (cases ds) auto
qed

lemma py_int0_stages:
  assumes "dropWhile isspace s = s1" "read_sign s1 = (sign, s2)" "detect_base s2 = (base, enz)"
    and "skip_prefix base s2 = s3"
    and "takeWhile (is_digit_or_underscore base) s3 = body"
    and "dropWhile (is_digit_or_underscore base) s3 = rest"
    and "filter (\<lambda>c. c \<noteq> CHR ''_'') body = ds"
  shows "py_int0 s =
     (if body = [] \<or> hd body = CHR ''_'' \<or> \<not> underscores_ok body then Inl ValueError
      else if base = 10 \<and> int_max_str_digits < length ds then Inl ValueError
      else if enz \<and> digits_value base ds \<noteq> 0 then Inl ValueError
      else if dropWhile isspace rest \<noteq> [] then Inl ValueError
      else Inr (sign * digits_value base ds))"
  unfolding py_int0_def Let_def assms prod.case ..


lemma zero_char_facts:
  "\<not> isspace (CHR ''0'')" "lower_char (CHR ''0'') \<notin> set ''lfsp''"
  using numeric_first_chars by simp_all

lemma skip_prefix_two:
  "base \<noteq> 10 \<Longrightarrow> ds \<noteq> [] \<Longrightarrow> hd ds \<noteq> CHR ''_'' \<Longrightarrow> skip_prefix base (a # b # ds) = ds"
  by (cases ds) (simp_all add: skip_prefix_def)

lemma py_int0_plain_body:
  assumes "dropWhile isspace s = s1" "read_sign s1 = (sign, s2)" "detect_base s2 = (base, enz)"
    and "skip_prefix base s2 = ds"
    and "ds \<noteq> []" "\<forall>c \<in> set ds. digit_value c < base" "base \<le> 36"
    and "base = 10 \<longrightarrow> length ds \<le> int_max_str_digits"
    and "enz \<longrightarrow> digits_value base ds = 0"
  shows "py_int0 s = Inr (sign * digits_value base ds)"
proof -
  note scan = scan_plain_digits [OF assms(5,6,7)]
  have "py_int0 s =
     (if ds = [] \<or> hd ds = CHR ''_'' \<or> \<not> underscores_ok ds then Inl ValueError
      else if base = 10 \<and> int_max_str_digits < length ds then Inl ValueError
      else if enz \<and> digits_value base ds \<noteq> 0 then Inl ValueError
      else if dropWhile isspace [] \<noteq> [] then Inl ValueError
      else Inr (sign * digits_value base ds))"
    by (rule py_int0_stages [OF assms(1-4) scan(1) scan(2) scan(3)])
  also have "\<dots> = Inr (sign * digits_value base ds)"
    using assms(5,8,9) scan(4,5) by (simp add: not_less)
  finally show ?thesis .
qed





lemma base_prefix_shape:
  "(p, base) \<in> set base_prefixes \<Longrightarrow>
     \<exists>x. p = [CHR ''0'', x] \<and> detect_base (p @ ds) = (base, False)"
  by (auto simp add: base_prefixes_def detect_base_def)

lemma py_int0_prefixed:
  assumes "(p, base) \<in> set base_prefixes" "ds \<noteq> []" "\<forall>c \<in> set ds. digit_value c < base"
  shows "py_int0 (p @ ds) = Inr (digits_value base ds)"
proof -
  have b: "base \<le> 36" "base \<noteq> 10"
    using assms(1) by (auto simp add: base_prefixes_def)
  obtain x where p: "p = [CHR ''0'', x]" and det: "detect_base (p @ ds) = (base, False)"
    using base_prefix_shape [OF assms(1)] by blast
  have s1: "dropWhile isspace (p @ ds) = p @ ds"
    using zero_char_facts(1) by (simp add: p)
  have sg: "read_sign (p @ ds) = (1, p @ ds)"
    by (simp add: read_sign_def p)
  have "hd ds \<noteq> CHR ''_''"
    by (rule scan_plain_digits(5) [OF assms(2,3) b(1)])
  then have sk: "skip_prefix base (p @ ds) = ds"
    using skip_prefix_two [OF b(2) assms(2)] by (simp add: p)
  have "py_int0 (p @ ds) = Inr (1 * digits_value base ds)"
    using s1 sg det sk assms(2,3) b(1)
  proof (rule py_int0_plain_body)
    show "base = 10 \<longrightarrow> length ds \<le> int_max_str_digits"
      using b(2) by simp
    show "False \<longrightarrow> digits_value base ds = 0"
      by simp
  qed
  then show ?thesis by simp
qed


lemma digits10_nonempty: "digits10 n \<noteq> []"
  by (subst digits10.simps) simp



lemma length_digits10: "length (digits10 n) \<le> Suc k \<longleftrightarrow> n < 10 ^ Suc k"
proof (induction n arbitrary: k rule: digits10.induct)
  case (1 n)
  show ?case
  proof (cases "n < 10")
    case True
    have "(10::nat) \<le> 10 ^ Suc k"
      by simp
    with True have "n < 10 ^ Suc k"
      by linarith
    with True show ?thesis
      by (subst digits10.simps) simp
  next
    case False
    have len: "length (digits10 n) = Suc (length (digits10 (n div 10)))"
      using False by (subst digits10.simps) simp
    show ?thesis
    proof (cases k)
      case 0
      have "0 < length (digits10 (n div 10))"
        using digits10_nonempty by simp
      with 0 False len show ?thesis by simp
    next
      case (Suc j)
      have "length (digits10 (n div 10)) \<le> Suc j \<longleftrightarrow> n div 10 < 10 ^ Suc j"
        using False by (rule 1)
      also have "\<dots> \<longleftrightarrow> n < 10 ^ Suc j * 10"
        by (simp add: div_less_iff_less_mult)
      finally show ?thesis
        using Suc len by (simp add: mult.commute)
    qed
  qed
qed

lemma str_int_limit:
  "int_max_str_digits < length (digits10 (nat \<bar>i\<bar>)) \<longleftrightarrow> 10 ^ int_max_str_digits \<le> \<bar>i\<bar>"
proof -
  obtain k where k: "int_max_str_digits = Suc k"
    by (cases int_max_str_digits) (simp_all add: int_max_str_digits_def)
  have "length (digits10 (nat \<bar>i\<bar>)) \<le> Suc k \<longleftrightarrow> nat \<bar>i\<bar> < 10 ^ Suc k"
    by (rule length_digits10)
  moreover have "nat \<bar>i\<bar> < 10 ^ Suc k \<longleftrightarrow> \<bar>i\<bar> < 10 ^ Suc k"
    by (simp only: nat_less_iff abs_ge_zero of_nat_power of_nat_numeral)
  ultimately show ?thesis
    unfolding k by linarith
qed

lemma str_int_eq:
  "str_int i =
     (if 10 ^ int_max_str_digits \<le> \<bar>i\<bar> then Inl ValueError
      else Inr ((if i < 0 then ''-'' else []) @ digits10 (nat \<bar>i\<bar>)))"
proof (cases "i < 0")
  case True
  then have "nat (- i) = nat \<bar>i\<bar>"
    by simp
  with True show ?thesis
    unfolding str_int_def str_int_limit by simp
next
  case False
  then have "nat i = nat \<bar>i\<bar>"
    by simp
  with False show ?thesis
    unfolding str_int_def str_int_limit by simp
qed



subsection \<open>The network label\<close>

lemma network_name_eq:
  "network_name cid =
     (if 10 ^ int_max_str_digits \<le> \<bar>cid\<bar> then Inl ValueError
      else Inr (case map_of NETWORKS cid of
                  Some label \<Rightarrow> label
                | None \<Rightarrow> ''Unknown (chain ID '' @ (if cid < 0 then ''-'' else []) @
                            digits10 (nat \<bar>cid\<bar>) @ '')''))"
  by (simp add: network_name_def str_int_eq split: option.splits)

lemma in_u64_below_limit:
  assumes "in_u64 cid"
  shows "\<not> 10 ^ int_max_str_digits \<le> \<bar>cid\<bar>"
proof -
  have "\<bar>cid\<bar> < 2 ^ 64"
    using assms by (simp add: in_u64_def)
  also have "(2::int) ^ 64 \<le> 10 ^ 64"
    by (rule power_mono) simp_all
  also have "(10::int) ^ 64 \<le> 10 ^ int_max_str_digits"
  proof (rule power_increasing)
    show "64 \<le> int_max_str_digits"
      by (simp add: int_max_str_digits_def)
  qed simp
  finally show ?thesis by simp
qed

lemma network_name_1: "network_name 1 = Inr ''Ethereum Mainnet''"
proof -
  have "in_u64 1"
    by (simp add: in_u64_def)
  then have "\<not> 10 ^ int_max_str_digits \<le> \<bar>1::int\<bar>"
    by (rule in_u64_below_limit)
  then show ?thesis
    by (simp add: network_name_eq NETWORKS_def)
qed

subsection \<open>Runs of the program\<close>

lemma bind_err_eq_Inr: "bind_err r f = Inr y \<longleftrightarrow> (\<exists>x. r = Inr x \<and> f x = Inr y)"
  by (cases r) simp_all

lemma w3_connect_Inr: "w3_connect net url = Inr w3 \<Longrightarrow> w3 = net url"
  by (simp add: w3_connect_def Let_def split: if_splits)

lemma main_run:
  assumes "rpc1 a \<noteq> []" "parse_block_arg (block a) = Inr bid"
    and "is_connected (net (rpc1 a))" "fetch_header_bundle v (net (rpc1 a)) bid = Inr p"
    and "gmtime (timestamp p) = Inr ()"
    and "rpc2 a = Some url" "url \<noteq> []" "is_connected (net url)"
    and "fetch_header_bundle v (net url) (secondary_block_id p bid) = Inr s"
    and "gmtime (timestamp s) = Inr ()"
  shows "main v gmtime net a =
           Inr \<lparr>run_primary = p,
                run_cross_check = Some (secondary_block_id p bid, s, compare p s)\<rparr>"
  using assms by (simp add: main_def w3_connect_def print_bundle_def Let_def)

lemma example_fetch_tag:
  assumes "in_u64 head"
  shows "\<exists>b. fetch_header_bundle Prefixed (provider_at head) (Tag t) = Inr b \<and>
             number b = head \<and> timestamp b = hdr_timestamp example_header"
  using assms
  by (simp add: fetch_header_bundle_def provider_at_def header_commitment_Prefixed block_at_def
      example_header_def in_u64_def network_name_1)

lemma example_fetch_height:
  assumes "0 \<le> n" "n \<le> head" "in_u64 n"
  shows "\<exists>b. fetch_header_bundle Prefixed (provider_at head) (Height n) = Inr b \<and>
             number b = n \<and> timestamp b = hdr_timestamp example_header"
  using assms
  by (simp add: fetch_header_bundle_def provider_at_def header_commitment_Prefixed block_at_def
      example_header_def in_u64_def network_name_1)

lemma parse_latest: "parse_block_arg ''latest'' = Inr (Tag ''latest'')"
  by code_simp

lemma parse_42: "parse_block_arg ''42'' = Inr (Height 42)"
  by code_simp

lemma example_net_simps:
  "example_net ''rpc-a'' = provider_at 100" "example_net ''rpc-b'' = provider_at 101"
  "is_connected (provider_at head)"
  by (simp_all add: example_net_def provider_at_def)

lemma fetch_number:
  "fetch_header_bundle v w3 r = Inr b \<Longrightarrow> eth_get_block w3 r = Inr h \<Longrightarrow> number b = hdr_number h"
  by (auto simp add: fetch_header_bundle_def bind_err_eq_Inr)

subsection \<open>The parser accepts the integer literals\<close>









lemma join_underscore_Cons:
  "gs \<noteq> [] \<Longrightarrow> join_underscore (g # gs) = g @ CHR ''_'' # join_underscore gs"
  by (cases gs) simp_all




































subsection \<open>The two renderings\<close>


lemma HexBytes_hex_inject: "HexBytes_hex v a = HexBytes_hex v b \<longleftrightarrow> a = b"
  by (cases v) (auto simp add: HexBytes_hex_def dest: hexstr_inject)

lemma in_u64_1: "in_u64 1"
  by (simp add: in_u64_def)

lemma first_byte_header_in_range:
  "in_u64 (hdr_number first_byte_header)" "in_u64 (hdr_timestamp first_byte_header)"
  "roots_32 first_byte_header"
  by (simp_all add: first_byte_header_def example_header_def in_u64_def roots_32_def)

lemma first_byte_differs: "hdr_stateRoot example_header \<noteq> hdr_stateRoot first_byte_header"
proof -
  have "replicate 32 (0x33 :: byte) = 0x33 # replicate 31 0x33"
    by (simp add: numeral_eq_Suc)
  then show ?thesis
    by (simp add: first_byte_header_def example_header_def)
qed

lemma example_bare_fields:
  "header_fields Bare 1 example_header = Inr example_bare_preimage"
  "header_fields Bare 1 first_byte_header = Inr example_bare_preimage"
proof -
  show "header_fields Bare 1 example_header = Inr example_bare_preimage"
    using in_u64_1 example_header_in_range
    by (simp add: header_fields_Bare example_bare_preimage_def)
      (simp add: example_header_def)
  show "header_fields Bare 1 first_byte_header = Inr example_bare_preimage"
    using in_u64_1 first_byte_header_in_range
    by (simp add: header_fields_Bare example_bare_preimage_def)
      (simp add: first_byte_header_def example_header_def)
qed

lemma serving_fetch:
  assumes "header_commitment v 1 h = Inr c"
  shows "fetch_header_bundle v (serving h) r =
           Inr \<lparr>chain_id = 1, network = ''Ethereum Mainnet'', number = hdr_number h,
                timestamp = hdr_timestamp h, hash = HexBytes_hex v (hdr_hash h),
                parentHash = HexBytes_hex v (hdr_parentHash h),
                stateRoot = HexBytes_hex v (hdr_stateRoot h),
                receiptsRoot = HexBytes_hex v (hdr_receiptsRoot h),
                transactionsRoot = HexBytes_hex v (hdr_transactionsRoot h),
                commitment = c\<rparr>"
  using assms by (simp add: fetch_header_bundle_def serving_def network_name_1)

lemma parse_fixed: "parse_block_arg ''18000000'' = Inr (Height 18000000)"
  by code_simp




section \<open>The claims\<close>

subsection \<open>The commitment\<close>

text \<open>
  Claim C2. The source cuts two characters from \<open>hex()\<close> of each hash field before it
  reads the bytes back. With the rendering of hexbytes 1.0 and later, which carries no
  prefix, these two characters are the first byte of the field: for the chain id 1 and
  the example header, whose three integers fit 8 unsigned bytes and whose five hash
  fields have 32 bytes each, the preimage is chainId (8 bytes) || number (8 bytes) ||
  the last 31 bytes of each of the five hash fields || timestamp (8 bytes). It has 179
  bytes, it is not the concatenation of 184 bytes, and the commitment is the rendering of
  the Keccak-256 digest of these 179 bytes.
\<close>

theorem bare_preimage_179:
  "in_u64 1 \<and> in_u64 (hdr_number example_header) \<and> in_u64 (hdr_timestamp example_header) \<and>
   roots_32 example_header \<and>
   header_fields Bare 1 example_header = Inr example_bare_preimage \<and>
   length example_bare_preimage = 179 \<and>
   length (concat_fields 1 example_header) = 184 \<and>
   example_bare_preimage \<noteq> concat_fields 1 example_header \<and>
   header_commitment Bare 1 example_header =
     Inr (''0x'' @ HexBytes_hex Bare (keccak256 example_bare_preimage))"
proof -
  have l: "length example_bare_preimage = 179"
    by (simp add: example_bare_preimage_def)
  have l': "length (concat_fields 1 example_header) = 184"
    using example_header_in_range(3) by (simp add: length_concat_fields roots_32_def)
  have "length example_bare_preimage \<noteq> length (concat_fields 1 example_header)"
    by (simp add: l l')
  then have d: "example_bare_preimage \<noteq> concat_fields 1 example_header"
    by (rule contrapos_nn) (simp only:)
  show ?thesis
    using in_u64_1 example_header_in_range example_bare_fields(1) l l' d
    by (simp add: header_commitment_def)
qed

text \<open>
  With the rendering of hexbytes before 1.0, which carries the prefix \<open>0x\<close>, the two
  characters cut are that prefix. Then, for integers that fit 8 unsigned bytes and
  hash fields of 32 bytes, the preimage is the concatenation of 184 bytes, each 8-byte
  group reads back as its integer, the digest is that of the concatenation, and the
  commitment carries the prefix twice.
\<close>

lemma header_commitment_keccak_184:
  assumes "in_u64 cid" "in_u64 (hdr_number h)" "in_u64 (hdr_timestamp h)" "roots_32 h"
  shows "header_fields Prefixed cid h = Inr (concat_fields cid h) \<and>
         length (concat_fields cid h) = 184 \<and>
         be_value (big_endian8 cid) = cid \<and>
         be_value (big_endian8 (hdr_number h)) = hdr_number h \<and>
         be_value (big_endian8 (hdr_timestamp h)) = hdr_timestamp h \<and>
         header_commitment Prefixed cid h =
           Inr (''0x0x'' @ hexstr (keccak256 (concat_fields cid h)))"
  using assms
  by (simp add: header_commitment_def header_fields_Prefixed length_concat_fields roots_32_def
      be_value_big_endian8 HexBytes_hex_def)




text \<open>
  Claim C7. With the rendering of hexbytes 1.0 and later the encoding of the preimage
  is not injective on its domain: the example header and the header that differs from
  it in the first byte of the state root alone are both in the domain (integers that fit
  8 unsigned bytes, hash fields of 32 bytes), they differ in one field, and for the chain
  id 1 they have the same preimage and the same commitment.
\<close>

theorem bare_preimage_collision:
  "in_u64 1 \<and> in_u64 (hdr_number example_header) \<and> in_u64 (hdr_timestamp example_header) \<and>
   roots_32 example_header \<and>
   in_u64 (hdr_number first_byte_header) \<and> in_u64 (hdr_timestamp first_byte_header) \<and>
   roots_32 first_byte_header \<and>
   hdr_stateRoot example_header \<noteq> hdr_stateRoot first_byte_header \<and>
   header.truncate example_header \<noteq> header.truncate first_byte_header \<and>
   header_fields Bare 1 example_header = Inr example_bare_preimage \<and>
   header_fields Bare 1 first_byte_header = Inr example_bare_preimage \<and>
   header_commitment Bare 1 example_header =
     Inr (''0x'' @ HexBytes_hex Bare (keccak256 example_bare_preimage)) \<and>
   header_commitment Bare 1 first_byte_header =
     Inr (''0x'' @ HexBytes_hex Bare (keccak256 example_bare_preimage))"
proof -
  have "header.truncate example_header \<noteq> header.truncate first_byte_header"
    using first_byte_differs by (auto simp add: header.truncate_def)
  then show ?thesis
    using in_u64_1 example_header_in_range first_byte_header_in_range first_byte_differs
      example_bare_fields
    by (simp add: header_commitment_def)
qed

text \<open>
  With that rendering the first byte of a state root never reaches the preimage: two
  headers that differ in it alone have the same commitment, whatever the chain id and the
  other fields.
\<close>

lemma header_commitment_Bare_first_byte:
  "header_commitment Bare cid (h\<lparr>hdr_stateRoot := x # r\<rparr>) =
   header_commitment Bare cid (h\<lparr>hdr_stateRoot := y # r\<rparr>)"
  by (simp add: header_commitment_def header_fields_Bare)

text \<open>
  With the rendering of hexbytes before 1.0 the encoding is injective on that domain:
  two inputs whose integers fit 8 unsigned bytes and whose hash fields have 32 bytes
  each, and which differ in the chain id or in one of the seven header fields, have
  different preimages.
\<close>

lemma header_fields_injective:
  assumes "in_u64 c1" "in_u64 (hdr_number h1)" "in_u64 (hdr_timestamp h1)" "roots_32 h1"
    and "in_u64 c2" "in_u64 (hdr_number h2)" "in_u64 (hdr_timestamp h2)" "roots_32 h2"
    and "c1 \<noteq> c2 \<or> header.truncate h1 \<noteq> header.truncate h2"
  shows "header_fields Prefixed c1 h1 \<noteq> header_fields Prefixed c2 h2"
proof
  assume "header_fields Prefixed c1 h1 = header_fields Prefixed c2 h2"
  then have eq: "concat_fields c1 h1 = concat_fields c2 h2"
    using assms by (simp add: header_fields_Prefixed)
  then have parts:
    "big_endian8 c1 = big_endian8 c2" "big_endian8 (hdr_number h1) = big_endian8 (hdr_number h2)"
    "hdr_hash h1 = hdr_hash h2" "hdr_parentHash h1 = hdr_parentHash h2"
    "hdr_stateRoot h1 = hdr_stateRoot h2" "hdr_receiptsRoot h1 = hdr_receiptsRoot h2"
    "hdr_transactionsRoot h1 = hdr_transactionsRoot h2"
    "big_endian8 (hdr_timestamp h1) = big_endian8 (hdr_timestamp h2)"
    using assms(4,8) by (simp_all add: concat_fields_def roots_32_def)
  then have "c1 = c2 \<and> header.truncate h1 = header.truncate h2"
    using assms(1-8) big_endian8_inject by (simp add: header.truncate_def)
  with assms(9) show False by simp
qed

text \<open>
  Claim C9. The commitment is a function of the chain id and of the seven header fields
  alone: two headers that agree on these fields, whatever else they carry, have the
  same commitment for the same chain id; a commitment that is produced is the rendering
  of a digest of 32 bytes; and two providers that report the same chain id and such
  headers yield bundles with the same commitment.
\<close>

theorem header_commitment_deterministic:
  assumes "header.truncate h1 = header.truncate h2"
  shows "header_commitment v cid h1 = header_commitment v cid h2 \<and>
         (\<forall>c. header_commitment v cid h1 = Inr c \<longrightarrow>
              (\<exists>d. length d = 32 \<and> c = ''0x'' @ HexBytes_hex v d)) \<and>
         (\<forall>p1 p2 r1 r2.
              eth_chain_id p1 = cid \<and> eth_chain_id p2 = cid \<and>
              eth_get_block p1 r1 = Inr h1 \<and> eth_get_block p2 r2 = Inr h2 \<longrightarrow>
              map_sum id commitment (fetch_header_bundle v p1 r1) =
              map_sum id commitment (fetch_header_bundle v p2 r2))"
proof -
  have eq: "header_commitment v cid h1 = header_commitment v cid h2"
    using header_fields_truncate [OF assms] by (simp add: header_commitment_def)
  have "map_sum id commitment (fetch_header_bundle v p1 r1) =
        map_sum id commitment (fetch_header_bundle v p2 r2)"
    if "eth_chain_id p1 = cid" "eth_chain_id p2 = cid"
       "eth_get_block p1 r1 = Inr h1" "eth_get_block p2 r2 = Inr h2"
    for p1 :: "'a provider" and p2 :: "'b provider" and r1 r2
    using that eq
    by (cases "network_name cid"; cases "header_commitment v cid h2")
      (simp_all add: fetch_header_bundle_def)
  with eq header_commitment_shape show ?thesis
    by blast
qed

theorem header_commitment_deterministic_witness:
  "header.truncate (header.extend example_header True) = header.truncate example_header \<and>
   header_commitment Prefixed 1 (header.extend example_header True) =
   header_commitment Prefixed 1 example_header \<and>
   header_commitment Prefixed 1 example_header =
     Inr (''0x'' @ HexBytes_hex Prefixed (keccak256 (concat_fields 1 example_header)))"
proof -
  have same: "header.truncate (header.extend example_header True) = header.truncate example_header"
    by (simp add: header.truncate_def header.extend_def)
  have "in_u64 1"
    by (simp add: in_u64_def)
  then show ?thesis
    using same header_commitment_deterministic [OF same, of Prefixed 1]
      example_header_in_range
    by (simp add: header_commitment_Prefixed)
qed

subsection \<open>The comparison\<close>

text \<open>
  Claim C6. The verdict of \<open>compare\<close> is the conjunction of its eight booleans, and each
  boolean is the equality of the corresponding entries of the two bundles (chain id,
  number, hash, parent hash, state root, receipts root, transactions root, commitment).
\<close>

theorem compare_sound_conjunction:
  "sound (compare a b) =
     (same_chain (compare a b) \<and> same_num (compare a b) \<and> same_hash (compare a b) \<and>
      same_parent (compare a b) \<and> same_state (compare a b) \<and> same_receipts (compare a b) \<and>
      same_txroot (compare a b) \<and> same_commit (compare a b)) \<and>
   same_chain (compare a b) = (chain_id a = chain_id b) \<and>
   same_num (compare a b) = (number a = number b) \<and>
   same_hash (compare a b) = (hash a = hash b) \<and>
   same_parent (compare a b) = (parentHash a = parentHash b) \<and>
   same_state (compare a b) = (stateRoot a = stateRoot b) \<and>
   same_receipts (compare a b) = (receiptsRoot a = receiptsRoot b) \<and>
   same_txroot (compare a b) = (transactionsRoot a = transactionsRoot b) \<and>
   same_commit (compare a b) = (commitment a = commitment b)"
  by (simp add: compare_def Let_def)

text \<open>
  Claim C5. With the rendering of hexbytes 1.0 and later, a run for block 18000000
  against two providers of chain 1 whose headers are identical except for the first
  byte of the state root reports the state roots as different, the six other fields as
  equal and the verdict as unsound, and it reports the two commitments as equal.
\<close>

theorem bare_commitment_match:
  "first_byte_header = example_header\<lparr>hdr_stateRoot := 0x34 # replicate 31 0x33\<rparr> \<and>
   hdr_stateRoot example_header \<noteq> hdr_stateRoot first_byte_header \<and>
   reported same_state (main Bare example_clock first_byte_net fixed_args) = Some False \<and>
   reported same_commit (main Bare example_clock first_byte_net fixed_args) = Some True \<and>
   reported same_chain (main Bare example_clock first_byte_net fixed_args) = Some True \<and>
   reported same_num (main Bare example_clock first_byte_net fixed_args) = Some True \<and>
   reported same_hash (main Bare example_clock first_byte_net fixed_args) = Some True \<and>
   reported same_parent (main Bare example_clock first_byte_net fixed_args) = Some True \<and>
   reported same_receipts (main Bare example_clock first_byte_net fixed_args) = Some True \<and>
   reported same_txroot (main Bare example_clock first_byte_net fixed_args) = Some True \<and>
   reported sound (main Bare example_clock first_byte_net fixed_args) = Some False"
proof -
  let ?c = "''0x'' @ HexBytes_hex Bare (keccak256 example_bare_preimage)"
  have c: "header_commitment Bare 1 example_header = Inr ?c"
    "header_commitment Bare 1 first_byte_header = Inr ?c"
    by (simp_all add: header_commitment_def example_bare_fields)
  have same: "hdr_number first_byte_header = hdr_number example_header"
    "hdr_timestamp first_byte_header = hdr_timestamp example_header"
    "hdr_hash first_byte_header = hdr_hash example_header"
    "hdr_parentHash first_byte_header = hdr_parentHash example_header"
    "hdr_receiptsRoot first_byte_header = hdr_receiptsRoot example_header"
    "hdr_transactionsRoot first_byte_header = hdr_transactionsRoot example_header"
    by (simp_all add: first_byte_header_def)
  have facts: "hdr_number example_header = 18000000"
    "example_clock (hdr_timestamp example_header) = Inr ()"
    by (simp_all add: example_header_def example_clock_def)
  define p where "p = fetch_header_bundle Bare (serving example_header) (Height 18000000)"
  define s where "s = fetch_header_bundle Bare (serving first_byte_header) (Height 18000000)"
  obtain pb where pb: "p = Inr pb"
    by (simp add: p_def serving_fetch [OF c(1)])
  obtain sb where sb: "s = Inr sb"
    by (simp add: s_def serving_fetch [OF c(2)])
  have fields_p: "chain_id pb = 1" "number pb = 18000000"
    "timestamp pb = hdr_timestamp example_header"
    "hash pb = HexBytes_hex Bare (hdr_hash example_header)"
    "parentHash pb = HexBytes_hex Bare (hdr_parentHash example_header)"
    "stateRoot pb = HexBytes_hex Bare (hdr_stateRoot example_header)"
    "receiptsRoot pb = HexBytes_hex Bare (hdr_receiptsRoot example_header)"
    "transactionsRoot pb = HexBytes_hex Bare (hdr_transactionsRoot example_header)"
    "commitment pb = ?c"
    using pb by (auto simp add: p_def serving_fetch [OF c(1)] facts)
  have fields_s: "chain_id sb = 1" "number sb = 18000000"
    "timestamp sb = hdr_timestamp example_header"
    "hash sb = HexBytes_hex Bare (hdr_hash example_header)"
    "parentHash sb = HexBytes_hex Bare (hdr_parentHash example_header)"
    "stateRoot sb = HexBytes_hex Bare (hdr_stateRoot first_byte_header)"
    "receiptsRoot sb = HexBytes_hex Bare (hdr_receiptsRoot example_header)"
    "transactionsRoot sb = HexBytes_hex Bare (hdr_transactionsRoot example_header)"
    "commitment sb = ?c"
    using sb by (auto simp add: s_def serving_fetch [OF c(2)] facts same)
  have net: "first_byte_net ''rpc-a'' = serving example_header"
    "first_byte_net ''rpc-b'' = serving first_byte_header"
    "is_connected (serving example_header)" "is_connected (serving first_byte_header)"
    by (simp_all add: first_byte_net_def serving_def)
  have m: "main Bare example_clock first_byte_net fixed_args =
          Inr \<lparr>run_primary = pb,
               run_cross_check = Some (secondary_block_id pb (Height 18000000), sb, compare pb sb)\<rparr>"
    by (rule main_run [where url = "''rpc-b''"])
      (simp_all add: fixed_args_def parse_fixed net pb [unfolded p_def] sb [unfolded s_def]
        fields_p fields_s facts secondary_block_id_def is_int_def)
  have cmp: "\<not> same_state (compare pb sb)" "same_commit (compare pb sb)"
    "same_chain (compare pb sb)" "same_num (compare pb sb)" "same_hash (compare pb sb)"
    "same_parent (compare pb sb)" "same_receipts (compare pb sb)" "same_txroot (compare pb sb)"
    "\<not> sound (compare pb sb)"
    using first_byte_differs
    by (simp_all add: compare_def Let_def fields_p fields_s HexBytes_hex_inject)
  have "first_byte_header = example_header\<lparr>hdr_stateRoot := 0x34 # replicate 31 0x33\<rparr>"
    by (simp add: first_byte_header_def)
  then show ?thesis
    using first_byte_differs cmp by (simp add: m reported_def)
qed

text \<open>
  With the rendering of hexbytes before 1.0, for two bundles fetched from providers of
  the same chain whose headers differ in the state root alone, the comparison reports
  the state roots as different, the six other fields as equal and the verdict as
  unsound; the two preimages differ; and the commitments are reported as different
  exactly when the Keccak-256 digests of the two preimages differ.
\<close>

lemma compare_state_root_only:
  assumes "eth_get_block p1 r1 = Inr h" "eth_get_block p2 r2 = Inr (h\<lparr>hdr_stateRoot := sr\<rparr>)"
    and "eth_chain_id p1 = cid" "eth_chain_id p2 = cid" "sr \<noteq> hdr_stateRoot h"
    and "fetch_header_bundle Prefixed p1 r1 = Inr b1" "fetch_header_bundle Prefixed p2 r2 = Inr b2"
  shows "\<not> same_state (compare b1 b2) \<and> \<not> sound (compare b1 b2) \<and>
         same_chain (compare b1 b2) \<and> same_num (compare b1 b2) \<and> same_hash (compare b1 b2) \<and>
         same_parent (compare b1 b2) \<and> same_receipts (compare b1 b2) \<and>
         same_txroot (compare b1 b2) \<and>
         concat_fields cid h \<noteq> concat_fields cid (h\<lparr>hdr_stateRoot := sr\<rparr>) \<and>
         (same_commit (compare b1 b2) \<longleftrightarrow>
            keccak256 (concat_fields cid h) =
            keccak256 (concat_fields cid (h\<lparr>hdr_stateRoot := sr\<rparr>)))"
proof -
  let ?h2 = "h\<lparr>hdr_stateRoot := sr\<rparr>"
  obtain label where label: "network_name cid = Inr label"
    using assms(1,3,6) by (cases "network_name cid") (simp_all add: fetch_header_bundle_def)
  have rng: "in_u64 cid \<and> in_u64 (hdr_number h) \<and> in_u64 (hdr_timestamp h)"
    using assms(1,3,6) label
    by (auto simp add: fetch_header_bundle_def header_commitment_Prefixed split: if_splits)
  have b1: "b1 = \<lparr>chain_id = cid, network = label, number = hdr_number h,
      timestamp = hdr_timestamp h, hash = HexBytes_hex Prefixed (hdr_hash h),
      parentHash = HexBytes_hex Prefixed (hdr_parentHash h),
      stateRoot = HexBytes_hex Prefixed (hdr_stateRoot h),
      receiptsRoot = HexBytes_hex Prefixed (hdr_receiptsRoot h),
      transactionsRoot = HexBytes_hex Prefixed (hdr_transactionsRoot h),
      commitment = ''0x'' @ HexBytes_hex Prefixed (keccak256 (concat_fields cid h))\<rparr>"
    using assms(1,3,6) rng label
    by (simp add: fetch_header_bundle_def header_commitment_Prefixed)
  have b2: "b2 = \<lparr>chain_id = cid, network = label, number = hdr_number h,
      timestamp = hdr_timestamp h, hash = HexBytes_hex Prefixed (hdr_hash h),
      parentHash = HexBytes_hex Prefixed (hdr_parentHash h),
      stateRoot = HexBytes_hex Prefixed sr,
      receiptsRoot = HexBytes_hex Prefixed (hdr_receiptsRoot h),
      transactionsRoot = HexBytes_hex Prefixed (hdr_transactionsRoot h),
      commitment = ''0x'' @ HexBytes_hex Prefixed (keccak256 (concat_fields cid ?h2))\<rparr>"
    using assms(2,4,7) rng label
    by (simp add: fetch_header_bundle_def header_commitment_Prefixed)
  have pre: "concat_fields cid h \<noteq> concat_fields cid ?h2"
    using assms(5) by (simp add: concat_fields_def)
  show ?thesis
    using assms(5) pre
    by (simp add: b1 b2 compare_def Let_def HexBytes_hex_Prefixed_inject eq_commute)
qed

subsection \<open>The network label\<close>

text \<open>
  Claim C8, as amended. \<open>network_name\<close> formats the fallback label before it looks
  the chain id up, and the interpreter refuses to write an integer of more than
  \<open>int_max_str_digits\<close> decimal digits. So \<open>network_name\<close> yields a label exactly
  for the chain ids of absolute value below \<open>10 ^ int_max_str_digits\<close>, among them
  every chain id that fits 8 unsigned bytes, and fails with \<open>ValueError\<close> for every
  other chain id. When it yields a label: the five chain ids of the table yield the
  table's labels (1 yields Ethereum Mainnet), and every other chain id, negative ones
  included, yields the fallback label \<open>Unknown (chain ID n)\<close> in which \<open>n\<close> is the
  decimal text of the chain id: a minus sign for a negative one, then decimal digits
  whose value is its absolute value.
\<close>

theorem network_name_cases:
  "network_name 1 = Inr ''Ethereum Mainnet'' \<and>
   network_name 11155111 = Inr ''Sepolia Testnet'' \<and>
   network_name 10 = Inr ''Optimism'' \<and>
   network_name 137 = Inr ''Polygon'' \<and>
   network_name 42161 = Inr ''Arbitrum One'' \<and>
   ((\<exists>label. network_name cid = Inr label) \<longleftrightarrow> \<bar>cid\<bar> < 10 ^ int_max_str_digits) \<and>
   (network_name cid = Inl e \<longleftrightarrow> e = ValueError \<and> 10 ^ int_max_str_digits \<le> \<bar>cid\<bar>) \<and>
   (in_u64 cid \<longrightarrow> \<bar>cid\<bar> < 10 ^ int_max_str_digits) \<and>
   (cid \<in> fst ` set NETWORKS \<longrightarrow>
      (\<exists>label. network_name cid = Inr label \<and> (cid, label) \<in> set NETWORKS)) \<and>
   (cid \<notin> fst ` set NETWORKS \<and> \<bar>cid\<bar> < 10 ^ int_max_str_digits \<longrightarrow>
      network_name cid =
        Inr (''Unknown (chain ID '' @ (if cid < 0 then ''-'' else []) @
             digits10 (nat \<bar>cid\<bar>) @ '')'') \<and>
      set (digits10 (nat \<bar>cid\<bar>)) \<subseteq> set ''0123456789'' \<and>
      digits_value 10 (digits10 (nat \<bar>cid\<bar>)) = \<bar>cid\<bar>)"
proof -
  have small: "\<not> 10 ^ int_max_str_digits \<le> \<bar>n\<bar>" if "n \<in> {1, 11155111, 10, 137, 42161}" for n :: int
  proof (rule in_u64_below_limit)
    show "in_u64 n"
      using that by (auto simp add: in_u64_def)
  qed
  have known: "network_name 1 = Inr ''Ethereum Mainnet''"
    "network_name 11155111 = Inr ''Sepolia Testnet''"
    "network_name 10 = Inr ''Optimism''" "network_name 137 = Inr ''Polygon''"
    "network_name 42161 = Inr ''Arbitrum One''"
    using small [of 1] small [of 11155111] small [of 10] small [of 137] small [of 42161]
    by (simp_all add: network_name_eq NETWORKS_def)
  have member: "\<exists>label. network_name cid = Inr label \<and> (cid, label) \<in> set NETWORKS"
    if "cid \<in> fst ` set NETWORKS"
  proof -
    from that have "map_of NETWORKS cid \<noteq> None"
      by (simp only: map_of_eq_None_iff not_not)
    then obtain label where l: "map_of NETWORKS cid = Some label"
      by (cases "map_of NETWORKS cid") simp_all
    then have m: "(cid, label) \<in> set NETWORKS"
      by (rule map_of_SomeD)
    from that have "cid \<in> {1, 11155111, 10, 137, 42161}"
      by (simp add: NETWORKS_def)
    then have "\<not> 10 ^ int_max_str_digits \<le> \<bar>cid\<bar>"
      by (rule small)
    with l have "network_name cid = Inr label"
      by (simp add: network_name_eq)
    with m show ?thesis
      by (intro exI conjI)
  qed
  have fallback: "network_name cid =
        Inr (''Unknown (chain ID '' @ (if cid < 0 then ''-'' else []) @
             digits10 (nat \<bar>cid\<bar>) @ '')'')"
    if "cid \<notin> fst ` set NETWORKS" "\<bar>cid\<bar> < 10 ^ int_max_str_digits"
  proof -
    from that(1) have "map_of NETWORKS cid = None"
      by (simp add: map_of_eq_None_iff)
    with that(2) show ?thesis
      by (simp add: network_name_eq)
  qed
  have ok: "(\<exists>label. network_name cid = Inr label) \<longleftrightarrow> \<bar>cid\<bar> < 10 ^ int_max_str_digits"
    by (simp add: network_name_eq not_le)
  have err: "network_name cid = Inl e \<longleftrightarrow> e = ValueError \<and> 10 ^ int_max_str_digits \<le> \<bar>cid\<bar>"
    by (auto simp add: network_name_eq)
  have u64: "\<bar>cid\<bar> < 10 ^ int_max_str_digits" if "in_u64 cid"
    using in_u64_below_limit [OF that] by simp
  have digits: "set (digits10 (nat \<bar>cid\<bar>)) \<subseteq> set ''0123456789''"
    "digits_value 10 (digits10 (nat \<bar>cid\<bar>)) = \<bar>cid\<bar>"
    using set_digits10 digits_value_digits10 [of "nat \<bar>cid\<bar>"] by simp_all
  show ?thesis
    using known member fallback ok err u64 digits by blast
qed

theorem network_name_cases_witness:
  "137 \<in> fst ` set NETWORKS \<and> (137, ''Polygon'') \<in> set NETWORKS \<and>
   network_name 137 = Inr ''Polygon'' \<and>
   in_u64 5 \<and> \<bar>5\<bar> < (10::int) ^ int_max_str_digits \<and>
   5 \<notin> fst ` set NETWORKS \<and> network_name 5 = Inr ''Unknown (chain ID 5)'' \<and>
   - 7 \<notin> fst ` set NETWORKS \<and> \<bar>- 7\<bar> < (10::int) ^ int_max_str_digits \<and>
   network_name (- 7) = Inr ''Unknown (chain ID -7)'' \<and>
   network_name (- (10 ^ int_max_str_digits)) = Inl ValueError"
proof -
  have d: "digits10 5 = ''5''" "digits10 7 = ''7''"
    by (simp_all add: digits10.simps digit_char_def digit_chars_def)
  have u: "in_u64 5" "in_u64 7"
    by (simp_all add: in_u64_def)
  have t: "137 \<in> fst ` set NETWORKS" "(137, ''Polygon'') \<in> set NETWORKS"
    "5 \<notin> fst ` set NETWORKS" "- 7 \<notin> fst ` set NETWORKS"
    by (simp_all add: NETWORKS_def)
  have five: "\<bar>5\<bar> < (10::int) ^ int_max_str_digits"
    using network_name_cases [of 5] u(1) by blast
  have "\<bar>7\<bar> < (10::int) ^ int_max_str_digits"
    using network_name_cases [of 7] u(2) by blast
  then have seven: "\<bar>- 7\<bar> < (10::int) ^ int_max_str_digits"
    by simp
  have big: "(10::int) ^ int_max_str_digits \<le> \<bar>- (10 ^ int_max_str_digits)\<bar>"
    by simp
  have n5: "network_name 5 = Inr ''Unknown (chain ID 5)''"
    using network_name_cases [of 5] t(3) five d(1) by simp
  have n7: "network_name (- 7) = Inr ''Unknown (chain ID -7)''"
    using network_name_cases [of "- 7"] t(4) seven d(2) by simp
  have nb: "network_name (- (10 ^ int_max_str_digits)) = Inl ValueError"
    using network_name_cases [of "- (10 ^ int_max_str_digits)" ValueError] big by blast
  have n137: "network_name 137 = Inr ''Polygon''"
    using network_name_cases [of 0] by blast
  show ?thesis
    using t u(1) five seven n5 n7 nb n137 by simp
qed

text \<open>
  Claim C8 as the specification states it fails: the chain id \<open>10 ^ int_max_str_digits\<close>,
  the least integer of \<open>int_max_str_digits + 1\<close> digits, yields no label; formatting the
  fallback label fails with \<open>ValueError\<close>.
\<close>

theorem long_chain_id_counterexample:
  "network_name (10 ^ int_max_str_digits) = Inl ValueError"
  by (simp add: network_name_eq)

subsection \<open>Block references\<close>




text \<open>
  Claim C10. Tags are recognised whatever their case: an input whose lower-casing is
  one of the four tags parses to that lower-case tag, so \<open>LATEST\<close> parses to
  \<open>latest\<close>. Numbers are read with the base taken from their prefix: \<open>0x10\<close>
  parses to the height 16, and in general a prefix \<open>0x\<close>, \<open>0o\<close> or \<open>0b\<close> (of either
  case) followed by digits of its base parses to the value of those digits in that base.
\<close>

theorem parse_block_arg_liberal:
  "(lower arg \<in> set block_tags \<longrightarrow> parse_block_arg arg = Inr (Tag (lower arg))) \<and>
   parse_block_arg ''LATEST'' = Inr (Tag ''latest'') \<and>
   parse_block_arg ''0x10'' = Inr (Height 16) \<and>
   ((p, base) \<in> set base_prefixes \<and> ds \<noteq> [] \<and> (\<forall>c \<in> set ds. digit_value c < base) \<longrightarrow>
      parse_block_arg (p @ ds) = Inr (Height (digits_value base ds)))"
proof -
  have latest: "parse_block_arg ''LATEST'' = Inr (Tag ''latest'')"
    by code_simp
  have hex: "parse_block_arg ''0x10'' = Inr (Height 16)"
    by code_simp
  have pre: "parse_block_arg (p @ ds) = Inr (Height (digits_value base ds))"
    if h: "(p, base) \<in> set base_prefixes" "ds \<noteq> []" "\<forall>c \<in> set ds. digit_value c < base"
  proof -
    obtain x where p: "p = [CHR ''0'', x]"
      using base_prefix_shape [OF h(1)] by blast
    have "lower_char (hd (p @ ds)) \<notin> set ''lfsp''"
      using zero_char_facts(2) by (simp add: p del: set_simps)
    then have "lower (p @ ds) \<notin> set block_tags"
      using tag_first_char [of "p @ ds"] by blast
    then show ?thesis
      using py_int0_prefixed [OF h] by (simp add: parse_block_arg_def)
  qed
  show ?thesis
    using latest hex pre by (simp add: parse_block_arg_def)
qed

theorem parse_block_arg_liberal_witness:
  "lower ''Safe'' \<in> set block_tags \<and> parse_block_arg ''Safe'' = Inr (Tag ''safe'') \<and>
   (''0b'', 2) \<in> set base_prefixes \<and> parse_block_arg ''0b101'' = Inr (Height 5)"
proof -
  have l: "lower ''Safe'' = ''safe''"
    by code_simp
  have t: "''safe'' \<in> set block_tags"
    by (simp add: block_tags_def)
  have b: "(''0b'', 2) \<in> set base_prefixes"
    by (simp add: base_prefixes_def)
  have d: "\<forall>c \<in> set ''101''. digit_value c < 2"
    by code_simp
  have v: "digits_value 2 ''101'' = 5"
    by code_simp
  show ?thesis
    using parse_block_arg_liberal [of "''Safe''" "''0b''" 2 "''101''"] l t b d v
    by simp
qed

subsection \<open>The reference sent to the secondary provider\<close>

text \<open>
  Claim C1, as amended. When a run of \<open>main\<close> cross-checks a secondary provider, the
  secondary bundle is the one fetched from that provider with the reference \<open>b_id\<close>,
  where: for a symbolic block reference \<open>b_id\<close> is that same tag, which the secondary
  provider resolves on its own; for a literal height \<open>b_id\<close> is the height that the
  primary bundle reports, which is the number of the header the primary provider
  returned for the literal height.
\<close>

theorem main_secondary_reference:
  assumes "main v gmtime net a = Inr r" and "run_cross_check r = Some (b_id, secondary, c)"
  shows "\<exists>block_id url.
           parse_block_arg (block a) = Inr block_id \<and> rpc2 a = Some url \<and>
           fetch_header_bundle v (net (rpc1 a)) block_id = Inr (run_primary r) \<and>
           fetch_header_bundle v (net url) b_id = Inr secondary \<and>
           c = compare (run_primary r) secondary \<and>
           (\<forall>t. block_id = Tag t \<longrightarrow> b_id = Tag t) \<and>
           (\<forall>n. block_id = Height n \<longrightarrow> b_id = Height (number (run_primary r))) \<and>
           (\<forall>h. eth_get_block (net (rpc1 a)) block_id = Inr h \<longrightarrow>
                number (run_primary r) = hdr_number h)"
proof -
  from assms(1) obtain block_id where p: "parse_block_arg (block a) = Inr block_id"
    by (cases "parse_block_arg (block a)") (simp_all add: main_def split: if_splits)
  from assms(1) p obtain w3a prim where
    wa: "w3_connect net (rpc1 a) = Inr w3a" and
    fa: "fetch_header_bundle v w3a block_id = Inr prim" and
    rest: "(if rpc2 a \<noteq> None \<and> rpc2 a \<noteq> Some []
            then bind_err (w3_connect net (the (rpc2 a))) (\<lambda>w3b.
                 let b_id = secondary_block_id prim block_id
                 in bind_err (fetch_header_bundle v w3b b_id) (\<lambda>secondary.
                    bind_err (print_bundle gmtime ''SECONDARY'' secondary) (\<lambda>_.
                    Inr \<lparr>run_primary = prim,
                         run_cross_check = Some (b_id, secondary, compare prim secondary)\<rparr>)))
            else Inr \<lparr>run_primary = prim, run_cross_check = None\<rparr>) = Inr r"
    by (auto simp add: main_def bind_err_eq_Inr split: if_splits)
  from rest assms(2) obtain url where u: "rpc2 a = Some url"
    by (cases "rpc2 a") (auto split: if_splits)
  from rest assms(2) u obtain w3b sec where
    wb: "w3_connect net url = Inr w3b" and
    fb: "fetch_header_bundle v w3b (secondary_block_id prim block_id) = Inr sec" and
    r: "r = \<lparr>run_primary = prim,
             run_cross_check = Some (secondary_block_id prim block_id, sec, compare prim sec)\<rparr>"
    by (auto simp add: bind_err_eq_Inr Let_def split: if_splits)
  from r assms(2) have eqs: "b_id = secondary_block_id prim block_id" "secondary = sec"
    "c = compare prim sec" "run_primary r = prim"
    by auto
  have "(\<forall>t. block_id = Tag t \<longrightarrow> b_id = Tag t) \<and>
        (\<forall>n. block_id = Height n \<longrightarrow> b_id = Height (number prim))"
    by (cases block_id) (simp_all add: eqs secondary_block_id_def is_int_def)
  moreover have "\<forall>h. eth_get_block (net (rpc1 a)) block_id = Inr h \<longrightarrow> number prim = hdr_number h"
    using fa w3_connect_Inr [OF wa] fetch_number by blast
  ultimately show ?thesis
    using p u fa fb eqs w3_connect_Inr [OF wa] w3_connect_Inr [OF wb] by auto
qed

theorem main_secondary_reference_witness:
  "primary_number (main Prefixed example_clock example_net height_args) = Some 42 \<and>
   secondary_reference (main Prefixed example_clock example_net height_args) = Some (Height 42) \<and>
   secondary_number (main Prefixed example_clock example_net height_args) = Some 42"
proof -
  have clock: "example_clock (hdr_timestamp example_header) = Inr ()"
    by (simp add: example_clock_def example_header_def)
  obtain p where p: "fetch_header_bundle Prefixed (provider_at 100) (Height 42) = Inr p"
    "number p = 42" "timestamp p = hdr_timestamp example_header"
    using example_fetch_height [of 42 100] by (auto simp add: in_u64_def)
  obtain s where s: "fetch_header_bundle Prefixed (provider_at 101) (Height 42) = Inr s"
    "number s = 42" "timestamp s = hdr_timestamp example_header"
    using example_fetch_height [of 42 101] by (auto simp add: in_u64_def)
  have m: "main Prefixed example_clock example_net height_args =
          Inr \<lparr>run_primary = p,
               run_cross_check = Some (secondary_block_id p (Height 42), s, compare p s)\<rparr>"
    by (rule main_run [where url = "''rpc-b''"])
      (simp_all add: height_args_def parse_42 example_net_simps p s clock
        secondary_block_id_def is_int_def)
  have "\<exists>block_id url.
           parse_block_arg (block height_args) = Inr block_id \<and> rpc2 height_args = Some url \<and>
           fetch_header_bundle Prefixed (example_net (rpc1 height_args)) block_id = Inr p \<and>
           fetch_header_bundle Prefixed (example_net url) (secondary_block_id p (Height 42)) = Inr s \<and>
           (\<forall>t. block_id = Tag t \<longrightarrow> secondary_block_id p (Height 42) = Tag t) \<and>
           (\<forall>n. block_id = Height n \<longrightarrow> secondary_block_id p (Height 42) = Height (number p)) \<and>
           (\<forall>h. eth_get_block (example_net (rpc1 height_args)) block_id = Inr h \<longrightarrow>
                number p = hdr_number h)"
    using main_secondary_reference [OF m, of "secondary_block_id p (Height 42)" s "compare p s"]
    by simp
  then have "secondary_block_id p (Height 42) = Height (number p)"
    by (auto simp add: height_args_def parse_42)
  then show ?thesis
    using m p(2) s(2)
    by (simp add: primary_number_def secondary_reference_def secondary_number_def)
qed

text \<open>
  Claim C1 as the specification states it fails: with the reference \<open>latest\<close>, a
  primary provider whose head is block 100 and a secondary provider whose head is
  block 101, the secondary provider is asked for \<open>latest\<close>, not for block 100, and
  the two bundles are of different blocks.
\<close>

theorem independent_latest_counterexample:
  "primary_number (main Prefixed example_clock example_net latest_args) = Some 100 \<and>
   secondary_reference (main Prefixed example_clock example_net latest_args) =
     Some (Tag ''latest'') \<and>
   secondary_number (main Prefixed example_clock example_net latest_args) = Some 101"
proof -
  have clock: "example_clock (hdr_timestamp example_header) = Inr ()"
    by (simp add: example_clock_def example_header_def)
  obtain p where p: "fetch_header_bundle Prefixed (provider_at 100) (Tag ''latest'') = Inr p"
    "number p = 100" "timestamp p = hdr_timestamp example_header"
    using example_fetch_tag [of 100 "''latest''"] by (auto simp add: in_u64_def)
  obtain s where s: "fetch_header_bundle Prefixed (provider_at 101) (Tag ''latest'') = Inr s"
    "number s = 101" "timestamp s = hdr_timestamp example_header"
    using example_fetch_tag [of 101 "''latest''"] by (auto simp add: in_u64_def)
  have "main Prefixed example_clock example_net latest_args =
          Inr \<lparr>run_primary = p,
               run_cross_check =
                 Some (secondary_block_id p (Tag ''latest''), s, compare p s)\<rparr>"
    by (rule main_run [where url = "''rpc-b''"])
      (simp_all add: latest_args_def parse_latest example_net_simps p s clock
        secondary_block_id_def is_int_def)
  then show ?thesis
    using p(2) s(2)
    by (simp add: primary_number_def secondary_reference_def secondary_number_def
        secondary_block_id_def is_int_def)
qed

end
